theory Spec2Isabelle
  imports
    Complex_Main
    "HOL-Library.Sublist"
    "HOL-Library.List_Lexorder"
    "HOL-Library.Char_ord"
begin

section \<open>Go runtime and library values\<close>

text \<open>
  \<^verbatim>\<open>time.Duration\<close> is a signed 64-bit count of nanoseconds; \<^verbatim>\<open>time.Time\<close> is
  modelled as a count of nanoseconds too. A \<^verbatim>\<open>float64\<close> read from the JSON
  configuration is a finite number and is modelled by its real value; the
  rounding of floating-point arithmetic is not modelled.
\<close>

type_synonym Duration = int
type_synonym Time = int

definition Millisecond :: Duration where "Millisecond = 1000000"
definition Second :: Duration where "Second = 1000000000"
definition Minute :: Duration where "Minute = 60000000000"

text \<open>
  Run-time panics of the Go code are values of the model. \<open>UnspecifiedConversion\<close> is
  not a panic: it marks a float-to-integer conversion whose result Go leaves to the
  implementation.
\<close>

datatype go_panic =
    IntegerDivideByZero
  | IndexOutOfRange nat nat
  | InvalidArgumentToIntn
  | NilPointerDereference
  | UnspecifiedConversion

definition wrap64 :: "int \<Rightarrow> int" where
  "wrap64 x = (x + 9223372036854775808) mod 18446744073709551616 - 9223372036854775808"

text \<open>
  Conversion of a \<^verbatim>\<open>float64\<close> to \<^verbatim>\<open>int64\<close> (\<^verbatim>\<open>time.Duration(x)\<close>) discards the
  fraction (truncation towards zero). When the truncated value does not fit in 64 bits the
  Go specification leaves the result to the implementation: the model reports that as
  \<open>None\<close>.
\<close>

definition float64_trunc :: "real \<Rightarrow> int" where
  "float64_trunc x = (if 0 \<le> x then \<lfloor>x\<rfloor> else \<lceil>x\<rceil>)"

definition float64_to_int64 :: "real \<Rightarrow> int option" where
  "float64_to_int64 x =
     (let t = float64_trunc x
      in if - 9223372036854775808 \<le> t \<and> t < 9223372036854775808 then Some t else None)"

text \<open>
  \<^verbatim>\<open>math/rand\<close>: the generator itself is library code. A source is determined by its
  seed; the model keeps the sequence of raw values that the seed yields (\<open>src\<close>) and the
  number of values drawn so far (\<open>pos\<close>). The map from seeds to sequences is a parameter
  (\<open>rand_lib\<close>) of every function that creates a source.
\<close>

type_synonym rand_lib = "int \<Rightarrow> nat \<Rightarrow> nat"

record rng =
  src :: "nat \<Rightarrow> nat"
  pos :: nat

definition rand_New :: "rand_lib \<Rightarrow> int \<Rightarrow> rng" where
  "rand_New lib seed = \<lparr>src = lib seed, pos = 0\<rparr>"

definition rng_next :: "rng \<Rightarrow> nat \<times> rng" where
  "rng_next g = (src g (pos g), g\<lparr>pos := Suc (pos g)\<rparr>)"

definition Float64 :: "rng \<Rightarrow> real \<times> rng" where
  "Float64 g = (let (v, g') = rng_next g in (real (v mod 9007199254740992) / 9007199254740992, g'))"

definition Float32 :: "rng \<Rightarrow> real \<times> rng" where
  "Float32 g = (let (v, g') = rng_next g in (real (v mod 16777216) / 16777216, g'))"

text \<open>
  \<^verbatim>\<open>Intn(n)\<close> yields a value in \<open>[0, n)\<close> for \<open>n > 0\<close> and panics for \<open>n = 0\<close>.
  Every call of the modelled code passes a positive constant or the length of a pool; the
  callers that pass a length check it first (\<open>RandomAgent\<close> and its siblings below).
\<close>

definition Intn :: "rng \<Rightarrow> nat \<Rightarrow> nat \<times> rng" where
  "Intn g n = (let (v, g') = rng_next g in (v mod n, g'))"

text \<open>The sequence of the first \<open>k\<close> raw values a source will yield.\<close>

definition draws :: "rng \<Rightarrow> nat \<Rightarrow> nat list" where
  "draws g k = map (\<lambda>i. src g (pos g + i)) [0..<k]"

section \<open>Pacing engine: \<^verbatim>\<open>RateLimiter\<close>\<close>

record RateLimiter =
  callsPerMinute :: real
  jitterPercent :: real
  random :: rng

text \<open>\<^verbatim>\<open>NewRateLimiter\<close> seeds the limiter's own source from the clock (\<open>now\<close>).\<close>

definition NewRateLimiter :: "rand_lib \<Rightarrow> Time \<Rightarrow> real \<Rightarrow> real \<Rightarrow> RateLimiter" where
  "NewRateLimiter lib now cpm jp =
     \<lparr>callsPerMinute = cpm, jitterPercent = jp, random = rand_New lib now\<rparr>"

text \<open>
  \<^verbatim>\<open>NextInterval\<close>: the guard \<^verbatim>\<open>callsPerMinute <= 0\<close>, then
  \<^verbatim>\<open>baseInterval := time.Minute / time.Duration(r.callsPerMinute)\<close>, an integer division
  of nanoseconds by the truncated rate (both operands are positive when the division is
  reached, so Go's quotient is \<open>div\<close>), then the jitter. The limiter is returned with its
  source advanced by the jitter draw.
\<close>

definition NextInterval :: "RateLimiter \<Rightarrow> (go_panic + Duration) \<times> RateLimiter" where
  "NextInterval r =
     (if callsPerMinute r \<le> 0 then (Inr Minute, r)
      else
        case float64_to_int64 (callsPerMinute r) of
          None \<Rightarrow> (Inl UnspecifiedConversion, r)
        | Some d \<Rightarrow>
            if d = 0 then (Inl IntegerDivideByZero, r)
            else
              let baseInterval = Minute div d in
              if jitterPercent r > 0 then
                let (u, g) = Float64 (random r);
                    jitterFactor = (u * 2 - 1) * (jitterPercent r / 100);
                    r' = r\<lparr>random := g\<rparr>
                in case float64_to_int64 (real_of_int baseInterval * jitterFactor) of
                     None \<Rightarrow> (Inl UnspecifiedConversion, r')
                   | Some jitterAmount \<Rightarrow> (Inr (wrap64 (baseInterval + jitterAmount)), r')
              else (Inr baseInterval, r))"

section \<open>Package \<^verbatim>\<open>strings\<close>, \<^verbatim>\<open>strconv\<close> and \<^verbatim>\<open>fmt\<close>\<close>

text \<open>
  A Go string is a sequence of bytes, here a \<^typ>\<open>string\<close>. The library functions are
  modelled on ASCII text, the alphabet of the captured logs and of the generated records:
  white space is the six ASCII white-space bytes, letters are \<open>A\<close>-\<open>Z\<close> and
  \<open>a\<close>-\<open>z\<close>. (Go also folds and trims the white space and letters of Unicode beyond
  ASCII; bytes above 127 are left alone here.)
\<close>

definition upper_letters :: string where "upper_letters = ''ABCDEFGHIJKLMNOPQRSTUVWXYZ''"
definition lower_letters :: string where "lower_letters = ''abcdefghijklmnopqrstuvwxyz''"

definition lower_char :: "char \<Rightarrow> char" where
  "lower_char c = (case map_of (zip upper_letters lower_letters) c of Some d \<Rightarrow> d | None \<Rightarrow> c)"

definition upper_char :: "char \<Rightarrow> char" where
  "upper_char c = (case map_of (zip lower_letters upper_letters) c of Some d \<Rightarrow> d | None \<Rightarrow> c)"

definition ToLower :: "string \<Rightarrow> string" where
  "ToLower s = map lower_char s"

definition ToUpper :: "string \<Rightarrow> string" where
  "ToUpper s = map upper_char s"

definition is_space :: "char \<Rightarrow> bool" where
  "is_space c \<longleftrightarrow>
     c = CHR 0x09 \<or> c = CHR 0x0A \<or> c = CHR 0x0B \<or> c = CHR 0x0C \<or> c = CHR 0x0D \<or> c = CHR 0x20"

primrec trim_right :: "string \<Rightarrow> string" where
  "trim_right [] = []"
| "trim_right (c # s) =
     (let t = trim_right s in if is_space c \<and> t = [] then [] else c # t)"

definition TrimSpace :: "string \<Rightarrow> string" where
  "TrimSpace s = trim_right (dropWhile is_space s)"

definition HasPrefix :: "string \<Rightarrow> string \<Rightarrow> bool" where
  "HasPrefix s p = prefix p s"

text \<open>\<^verbatim>\<open>strings.Index\<close>: the position of the first occurrence, \<open>None\<close> for Go's \<open>-1\<close>.\<close>

primrec Index :: "string \<Rightarrow> string \<Rightarrow> nat option" where
  "Index [] sub = (if sub = [] then Some 0 else None)"
| "Index (c # s) sub =
     (if prefix sub (c # s) then Some 0 else map_option Suc (Index s sub))"

definition Contains :: "string \<Rightarrow> string \<Rightarrow> bool" where
  "Contains s sub = (Index s sub \<noteq> None)"

text \<open>\<^verbatim>\<open>strings.Fields\<close>: the maximal runs of bytes that are not white space.\<close>

primrec fields_from :: "string \<Rightarrow> string \<Rightarrow> string list" where
  "fields_from cur [] = (if cur = [] then [] else [rev cur])"
| "fields_from cur (c # s) =
     (if is_space c then (if cur = [] then fields_from [] s else rev cur # fields_from [] s)
      else fields_from (c # cur) s)"

definition Fields :: "string \<Rightarrow> string list" where
  "Fields s = fields_from [] s"

text \<open>Decimal digits of a natural number (\<^verbatim>\<open>%d\<close> of a value that is not negative).\<close>

definition digit_char :: "nat \<Rightarrow> char" where
  "digit_char d = ''0123456789'' ! (d mod 10)"

fun dec :: "nat \<Rightarrow> string" where
  "dec n = (if n < 10 then [digit_char n] else dec (n div 10) @ [digit_char n])"

declare dec.simps [simp del]

text \<open>\<^verbatim>\<open>%d\<close> and \<^verbatim>\<open>%0wd\<close>: the sign first, then zeros up to the width, then the digits.\<close>

definition fmt_d :: "int \<Rightarrow> string" where
  "fmt_d n = (if n < 0 then CHR ''-'' # dec (nat (- n)) else dec (nat n))"

definition fmt_0d :: "nat \<Rightarrow> int \<Rightarrow> string" where
  "fmt_0d w n =
     (if n < 0 then CHR ''-'' # replicate (w - 1 - length (dec (nat (- n)))) CHR ''0'' @ dec (nat (- n))
      else replicate (w - length (dec (nat n))) CHR ''0'' @ dec (nat n))"

text \<open>\<^verbatim>\<open>%-ws\<close>: the text, then blanks up to the width.\<close>

definition fmt_left :: "nat \<Rightarrow> string \<Rightarrow> string" where
  "fmt_left w s = s @ replicate (w - length s) CHR '' ''"

text \<open>
  \<^verbatim>\<open>strconv.ParseInt(s, 10, 64)\<close>: an optional sign, then one or more decimal digits and
  nothing else; a value outside the 64-bit range is an error. \<open>None\<close> is the error.
\<close>

definition digit_val :: "char \<Rightarrow> nat option" where
  "digit_val c = map_of (zip ''0123456789'' [0, 1, 2, 3, 4, 5, 6, 7, 8, 9]) c"

primrec parse_digits :: "nat \<Rightarrow> string \<Rightarrow> nat option" where
  "parse_digits acc [] = Some acc"
| "parse_digits acc (c # s) =
     (case digit_val c of None \<Rightarrow> None | Some d \<Rightarrow> parse_digits (acc * 10 + d) s)"

definition ParseInt :: "string \<Rightarrow> int option" where
  "ParseInt s =
     (let (neg, ds) =
            (case s of
               c # r \<Rightarrow> if c = CHR ''-'' then (True, r) else if c = CHR ''+'' then (False, r)
                        else (False, s)
             | [] \<Rightarrow> (False, s))
      in if ds = [] then None
         else case parse_digits 0 ds of
                None \<Rightarrow> None
              | Some n \<Rightarrow>
                  let v = (if neg then - int n else int n)
                  in if - 9223372036854775808 \<le> v \<and> v < 9223372036854775808 then Some v
                     else None)"

text \<open>
  Formatting of times and of floating-point numbers is library code that no property
  below depends on: it is a parameter of the generators.
\<close>

record fmt_lib =
  time_Format :: "Time \<Rightarrow> string \<Rightarrow> string"
  fmt_float :: "string \<Rightarrow> real \<Rightarrow> string"

section \<open>Package \<^verbatim>\<open>format\<close>: records, generation context, registry\<close>

record CDRRecord =
  ID :: string
  Type :: string
  Timestamp :: Time
  Duration :: Duration
  Lines :: "string list"

text \<open>\<^verbatim>\<open>Output\<close>: every line followed by a line feed, in order.\<close>

definition Output :: "CDRRecord \<Rightarrow> string" where
  "Output r = concat (map (\<lambda>line. line @ [CHR 0x0A]) (Lines r))"

record Agent =
  AgentID :: string
  AgentName :: string
  AgentRole :: string

record Location =
  Address :: string
  City :: string
  State :: string
  Township :: string
  ESN :: string
  Latitude :: real
  Longitude :: real
  Altitude :: real

record Carrier =
  Code :: string
  CarrierName :: string
  CarrierType :: string

record GenerationContext =
  SystemID :: string
  PSAPName :: string
  AgentPool :: "Agent list"
  LocationPool :: "Location list"
  CarrierPool :: "Carrier list"
  CurrentTime :: Time
  CallNumber :: int
  Random :: rng

definition defaultAgents :: "Agent list" where
  "defaultAgents =
    [\<lparr>AgentID = ''10001'', AgentName = ''John Smith'', AgentRole = ''CALL TAKER''\<rparr>,
     \<lparr>AgentID = ''10002'', AgentName = ''Jane Doe'', AgentRole = ''CALL TAKER''\<rparr>,
     \<lparr>AgentID = ''10003'', AgentName = ''Mike Johnson'', AgentRole = ''CALL TAKER''\<rparr>,
     \<lparr>AgentID = ''10004'', AgentName = ''Sarah Williams'', AgentRole = ''CALL TAKER''\<rparr>,
     \<lparr>AgentID = ''10005'', AgentName = ''David Brown'', AgentRole = ''DISPATCHER''\<rparr>,
     \<lparr>AgentID = ''10006'', AgentName = ''Emily Davis'', AgentRole = ''DISPATCHER''\<rparr>,
     \<lparr>AgentID = ''10007'', AgentName = ''Chris Wilson'', AgentRole = ''CALL TAKER''\<rparr>,
     \<lparr>AgentID = ''10008'', AgentName = ''Amanda Miller'', AgentRole = ''CALL TAKER''\<rparr>,
     \<lparr>AgentID = ''10009'', AgentName = ''Robert Taylor'', AgentRole = ''SUPERVISOR''\<rparr>,
     \<lparr>AgentID = ''10010'', AgentName = ''Lisa Anderson'', AgentRole = ''CALL TAKER''\<rparr>]"

definition defaultLocations :: "Location list" where
  "defaultLocations =
    [\<lparr>Address = ''123 Main St'', City = ''Lincoln'', State = ''NE'', Township = ''Lancaster'',
      ESN = ''123456'', Latitude = 40.8136, Longitude = - 96.7026, Altitude = 357\<rparr>,
     \<lparr>Address = ''456 Oak Ave'', City = ''Omaha'', State = ''NE'', Township = ''Douglas'',
      ESN = ''234567'', Latitude = 41.2565, Longitude = - 95.9345, Altitude = 332\<rparr>,
     \<lparr>Address = ''789 Elm Blvd'', City = ''Bellevue'', State = ''NE'', Township = ''Sarpy'',
      ESN = ''345678'', Latitude = 41.1544, Longitude = - 95.9146, Altitude = 305\<rparr>,
     \<lparr>Address = ''321 Pine Rd'', City = ''Grand Island'', State = ''NE'', Township = ''Hall'',
      ESN = ''456789'', Latitude = 40.9264, Longitude = - 98.3420, Altitude = 566\<rparr>,
     \<lparr>Address = ''654 Cedar Ln'', City = ''Kearney'', State = ''NE'', Township = ''Buffalo'',
      ESN = ''567890'', Latitude = 40.6993, Longitude = - 99.0817, Altitude = 652\<rparr>,
     \<lparr>Address = ''987 Maple Dr'', City = ''Fremont'', State = ''NE'', Township = ''Dodge'',
      ESN = ''678901'', Latitude = 41.4333, Longitude = - 96.4981, Altitude = 373\<rparr>,
     \<lparr>Address = ''147 Birch Way'', City = ''Hastings'', State = ''NE'', Township = ''Adams'',
      ESN = ''789012'', Latitude = 40.5861, Longitude = - 98.3884, Altitude = 595\<rparr>,
     \<lparr>Address = ''258 Walnut Ct'', City = ''Norfolk'', State = ''NE'', Township = ''Madison'',
      ESN = ''890123'', Latitude = 42.0283, Longitude = - 97.4170, Altitude = 476\<rparr>,
     \<lparr>Address = ''369 Spruce Pl'', City = ''Columbus'', State = ''NE'', Township = ''Platte'',
      ESN = ''901234'', Latitude = 41.4297, Longitude = - 97.3684, Altitude = 436\<rparr>,
     \<lparr>Address = ''480 Ash St'', City = ''Papillion'', State = ''NE'', Township = ''Sarpy'',
      ESN = ''012345'', Latitude = 41.1544, Longitude = - 96.0419, Altitude = 329\<rparr>]"

definition defaultCarriers :: "Carrier list" where
  "defaultCarriers =
    [\<lparr>Code = ''VZW'', CarrierName = ''VERIZON'', CarrierType = ''WPH2''\<rparr>,
     \<lparr>Code = ''TMOB'', CarrierName = ''T-MOBILE USA, INC.'', CarrierType = ''WPH2''\<rparr>,
     \<lparr>Code = ''ATTMO'', CarrierName = ''AT&T Mobility'', CarrierType = ''WPH2''\<rparr>,
     \<lparr>Code = ''SPRINT'', CarrierName = ''SPRINT'', CarrierType = ''WPH2''\<rparr>,
     \<lparr>Code = ''USCC'', CarrierName = ''US CELLULAR'', CarrierType = ''WPH2''\<rparr>]"

text \<open>
  \<^verbatim>\<open>NewGenerationContext(systemID, psapName, seed)\<close>; \<open>now\<close> is the reading of the clock
  that \<^verbatim>\<open>time.Now()\<close> returns.
\<close>

definition NewGenerationContext ::
  "rand_lib \<Rightarrow> Time \<Rightarrow> string \<Rightarrow> string \<Rightarrow> int \<Rightarrow> GenerationContext" where
  "NewGenerationContext lib now systemID psapName seed =
     \<lparr>SystemID = systemID, PSAPName = psapName,
      AgentPool = defaultAgents, LocationPool = defaultLocations,
      CarrierPool = defaultCarriers,
      CurrentTime = now, CallNumber = 10000000, Random = rand_New lib seed\<rparr>"

text \<open>
  The helper methods mutate the context (its source, its call number): they return the
  new context with their value. Drawing from an empty pool is \<^verbatim>\<open>Intn(0)\<close>, a panic.
\<close>

definition ctx_Intn :: "GenerationContext \<Rightarrow> nat \<Rightarrow> nat \<times> GenerationContext" where
  "ctx_Intn ctx n = (let (v, g) = Intn (Random ctx) n in (v, ctx\<lparr>Random := g\<rparr>))"

definition RandomAgent :: "GenerationContext \<Rightarrow> go_panic + (Agent \<times> GenerationContext)" where
  "RandomAgent ctx =
     (if AgentPool ctx = [] then Inl InvalidArgumentToIntn
      else let (i, ctx') = ctx_Intn ctx (length (AgentPool ctx)) in Inr (AgentPool ctx ! i, ctx'))"

definition RandomLocation ::
  "GenerationContext \<Rightarrow> go_panic + (Location \<times> GenerationContext)" where
  "RandomLocation ctx =
     (if LocationPool ctx = [] then Inl InvalidArgumentToIntn
      else let (i, ctx') = ctx_Intn ctx (length (LocationPool ctx))
           in Inr (LocationPool ctx ! i, ctx'))"

definition RandomCarrier ::
  "GenerationContext \<Rightarrow> go_panic + (Carrier \<times> GenerationContext)" where
  "RandomCarrier ctx =
     (if CarrierPool ctx = [] then Inl InvalidArgumentToIntn
      else let (i, ctx') = ctx_Intn ctx (length (CarrierPool ctx))
           in Inr (CarrierPool ctx ! i, ctx'))"

definition formatPhone :: "int \<Rightarrow> int \<Rightarrow> int \<Rightarrow> string" where
  "formatPhone areaCode exchange subscriber =
     fmt_0d 3 areaCode @ fmt_0d 3 exchange @ fmt_0d 4 subscriber"

definition RandomPhoneNumber :: "GenerationContext \<Rightarrow> string \<times> GenerationContext" where
  "RandomPhoneNumber ctx =
     (let (a, c1) = ctx_Intn ctx 800;
          (e, c2) = ctx_Intn c1 800;
          (s, c3) = ctx_Intn c2 10000
      in (formatPhone (200 + int a) (200 + int e) (int s), c3))"

text \<open>
  \<^verbatim>\<open>RandomDuration(minSec, maxSec)\<close>: \<open>minSec\<close> seconds when \<open>maxSec \<le> minSec\<close>, else
  \<open>minSec\<close> plus a draw below \<open>maxSec - minSec\<close>.
\<close>

definition RandomDuration ::
  "GenerationContext \<Rightarrow> int \<Rightarrow> int \<Rightarrow> Duration \<times> GenerationContext" where
  "RandomDuration ctx minSec maxSec =
     (if maxSec \<le> minSec then (minSec * Second, ctx)
      else let (k, ctx') = ctx_Intn ctx (nat (maxSec - minSec))
           in ((minSec + int k) * Second, ctx'))"

definition NextCallNumber :: "GenerationContext \<Rightarrow> int \<times> GenerationContext" where
  "NextCallNumber ctx = (CallNumber ctx + 1, ctx\<lparr>CallNumber := CallNumber ctx + 1\<rparr>)"

subsection \<open>The registry\<close>

text \<open>
  A format is an implementation of the interface \<^verbatim>\<open>CDRFormat\<close>: its name, its description
  and its two methods, which the two implementations of the repository (\<open>Vesta\<close>,
  \<open>Viper\<close>) provide; \<open>handler\<close> says which implementation a value is.
\<close>

datatype protocol = Vesta | Viper

record CDRFormat =
  Name :: string
  Description :: string
  handler :: protocol

datatype registry_error = AlreadyRegistered string | UnknownFormat string

text \<open>
  The registry is the package-level \<^verbatim>\<open>map[string]CDRFormat\<close>, passed and returned
  explicitly: a list of the entries, looked up by key with \<^const>\<open>map_of\<close>. \<^verbatim>\<open>Register\<close>
  adds an entry only under a key that is absent, so keys stay distinct.
\<close>

type_synonym registry = "(string \<times> CDRFormat) list"

definition Register :: "registry \<Rightarrow> CDRFormat \<Rightarrow> registry_error option \<times> registry" where
  "Register reg fmt =
     (let name = ToLower (Name fmt)
      in case map_of reg name of
           Some _ \<Rightarrow> (Some (AlreadyRegistered name), reg)
         | None \<Rightarrow> (None, reg @ [(name, fmt)]))"

definition Get :: "registry \<Rightarrow> string \<Rightarrow> registry_error + CDRFormat" where
  "Get reg name =
     (case map_of reg (ToLower name) of
        None \<Rightarrow> Inl (UnknownFormat name)
      | Some fmt \<Rightarrow> Inr fmt)"


definition Count :: "registry \<Rightarrow> nat" where
  "Count reg = length reg"

text \<open>The registry after a sequence of \<^verbatim>\<open>Register\<close> calls on the empty map.\<close>

definition registered :: "CDRFormat list \<Rightarrow> registry" where
  "registered fmts = foldl (\<lambda>reg fmt. snd (Register reg fmt)) [] fmts"

text \<open>
  The two formats of the repository and the registry their \<^verbatim>\<open>init\<close> functions leave
  (\<^verbatim>\<open>MustRegister\<close> of each, on the empty map).
\<close>

definition VestaFormat :: CDRFormat where
  "VestaFormat =
     \<lparr>Name = ''vesta'', Description = ''Vesta 911 Call Handling System'', handler = Vesta\<rparr>"

definition ViperFormat :: CDRFormat where
  "ViperFormat =
     \<lparr>Name = ''viper'', Description = ''Viper VoIP 911 Call Handling System'',
      handler = Viper\<rparr>"

definition init_registry :: registry where
  "init_registry = registered [VestaFormat, ViperFormat]"

section \<open>Replay parsers\<close>

text \<open>
  Both parsers read the sample through \<^verbatim>\<open>encoding/csv\<close> with \<^verbatim>\<open>FieldsPerRecord = 2\<close>.
  The model starts from the rows the CSV reader returns (a list of fields each);
  \<^verbatim>\<open>ReadAll\<close> fails when a row does not have two fields. \<^verbatim>\<open>vestaMessage\<close> and
  \<^verbatim>\<open>viperMessage\<close> are the same struct.
\<close>

datatype parse_error = ErrFieldCount

record viperMessage =
  SysIdent :: int
  Message :: string

type_synonym vestaMessage = viperMessage

text \<open>
  The first loop of both parsers: the header row is skipped (\<open>first\<close> is \<^verbatim>\<open>i == 0\<close>), and
  so is every row whose first field \<^verbatim>\<open>strconv.ParseInt\<close> rejects.
\<close>

primrec read_messages :: "string list list \<Rightarrow> bool \<Rightarrow> viperMessage list" where
  "read_messages [] first = []"
| "read_messages (record # rawRecords) first =
     (if first \<and> record ! 0 = ''sysident'' then read_messages rawRecords False
      else case ParseInt (record ! 0) of
             None \<Rightarrow> read_messages rawRecords False
           | Some sysIdent \<Rightarrow>
               \<lparr>SysIdent = sysIdent, Message = record ! 1\<rparr> # read_messages rawRecords False)"

text \<open>
  \<^verbatim>\<open>sort.Slice\<close> by \<^verbatim>\<open>SysIdent\<close>. Go's sort is not stable; the model sorts stably, which
  is the only order when the sequence ids are distinct.
\<close>

definition sort_messages :: "viperMessage list \<Rightarrow> viperMessage list" where
  "sort_messages messages = sort_key SysIdent messages"

subsection \<open>Protocol B: Viper\<close>

definition ViperCDRBegin :: string where "ViperCDRBegin = ''===== CDR BEGIN :''"
definition ViperCDREnd :: string where "ViperCDREnd = ''===== CDR END =====''"
definition ViperAgentBegin :: string where "ViperAgentBegin = ''===== AGENT BEGIN :''"
definition ViperAgentEnd :: string where "ViperAgentEnd = ''===== AGENT END =====''"

definition extractCallID :: "string \<Rightarrow> string" where
  "extractCallID line = ''''"

text \<open>
  The identifier scan inside a block: while \<^verbatim>\<open>currentID\<close> is empty, a message that
  contains \<^verbatim>\<open>Incoming Call(ID:\<close> gives the text up to the next \<^verbatim>\<open>)\<close>, trimmed, when that
  parenthesis is not the very next byte.
\<close>

definition incomingCallID :: "string \<Rightarrow> string \<Rightarrow> string" where
  "incomingCallID currentID message =
     (if currentID = '''' \<and> Contains message ''Incoming Call(ID:'' then
        (case Index message ''Incoming Call(ID:'' of
           None \<Rightarrow> currentID
         | Some i \<Rightarrow>
             let start = i + length ''Incoming Call(ID:''
             in case Index (drop start message) '')'' of
                  None \<Rightarrow> currentID
                | Some end \<Rightarrow>
                    if end > 0 then TrimSpace (take end (drop start message)) else currentID)
      else currentID)"

text \<open>
  The grouping loop of \<^verbatim>\<open>ParseViperCSV\<close> with its local variables as arguments; the last
  equation is the code after the loop. \<open>now\<close> is the reading of the clock stored in
  \<^verbatim>\<open>Timestamp\<close>; \<^verbatim>\<open>Duration\<close> is left at its zero value.
\<close>

fun viper_loop ::
  "Time \<Rightarrow> viperMessage list \<Rightarrow> CDRRecord list \<Rightarrow> string list \<Rightarrow> string \<Rightarrow> string \<Rightarrow> bool
   \<Rightarrow> CDRRecord list" where
  "viper_loop now (msg # messages) records currentLines currentID currentType inBlock =
     (let trimmed = TrimSpace (Message msg) in
      if HasPrefix trimmed ViperCDRBegin then
        viper_loop now messages
          (if inBlock \<and> length currentLines > 0
           then records @ [\<lparr>ID = currentID, Type = currentType, Timestamp = now,
                            Duration = 0, Lines = currentLines\<rparr>]
           else records)
          [trimmed] (extractCallID trimmed) ''cdr'' True
      else if HasPrefix trimmed ViperAgentBegin then
        viper_loop now messages
          (if inBlock \<and> length currentLines > 0
           then records @ [\<lparr>ID = currentID, Type = currentType, Timestamp = now,
                            Duration = 0, Lines = currentLines\<rparr>]
           else records)
          [trimmed] '''' ''agent'' True
      else if trimmed = ViperCDREnd \<or> trimmed = ViperAgentEnd then
        (if inBlock then
           viper_loop now messages
             (records @ [\<lparr>ID = currentID, Type = currentType, Timestamp = now,
                            Duration = 0, Lines = currentLines @ [trimmed]\<rparr>])
             [] '''' '''' False
         else viper_loop now messages records currentLines currentID currentType inBlock)
      else if inBlock \<and> trimmed \<noteq> '''' then
        viper_loop now messages records (currentLines @ [Message msg])
          (incomingCallID currentID (Message msg)) currentType inBlock
      else viper_loop now messages records currentLines currentID currentType inBlock)"
| "viper_loop now [] records currentLines currentID currentType inBlock =
     (if inBlock \<and> length currentLines > 0
      then records @ [\<lparr>ID = currentID, Type = currentType, Timestamp = now,
                       Duration = 0, Lines = currentLines\<rparr>]
      else records)"

text \<open>The blocks of a message stream that is already sorted.\<close>

definition viper_blocks :: "Time \<Rightarrow> viperMessage list \<Rightarrow> CDRRecord list" where
  "viper_blocks now messages = viper_loop now messages [] [] '''' '''' False"

definition ParseViperCSV :: "Time \<Rightarrow> string list list \<Rightarrow> parse_error + CDRRecord list" where
  "ParseViperCSV now rawRecords =
     (if list_ex (\<lambda>record. length record \<noteq> 2) rawRecords then Inl ErrFieldCount
      else Inr (viper_blocks now (sort_messages (read_messages rawRecords True))))"

subsection \<open>Protocol A: Vesta\<close>

definition VestaSeparator :: string where
  "VestaSeparator =
     ''---   ---   ---   ---   ---   ---   ---   ---   ---   ---   ---   ---   ---''"

text \<open>
  The first \<^verbatim>\<open>Call\<close> among the fields that has a successor gives the identifier (the
  inner \<^verbatim>\<open>for\<close> loop with its \<^verbatim>\<open>break\<close>).
\<close>

fun callField :: "string list \<Rightarrow> string option" where
  "callField (part # next # parts) =
     (if part = ''Call'' then Some next else callField (next # parts))"
| "callField _ = None"

definition arrivesCallID :: "string \<Rightarrow> string \<Rightarrow> string" where
  "arrivesCallID currentID message =
     (if Contains message ''Call '' \<and> Contains message ''Arrives On'' then
        (case callField (Fields message) of Some x \<Rightarrow> x | None \<Rightarrow> currentID)
      else currentID)"

fun vesta_loop ::
  "Time \<Rightarrow> vestaMessage list \<Rightarrow> CDRRecord list \<Rightarrow> string list \<Rightarrow> string \<Rightarrow> CDRRecord list"
  where
  "vesta_loop now (msg # messages) records currentLines currentID =
     (if Message msg = VestaSeparator then
        (if length currentLines > 0 then
           vesta_loop now messages
             (records @ [\<lparr>ID = currentID, Type = ''cdr'', Timestamp = now, Duration = 0,
                            Lines = currentLines @ [VestaSeparator]\<rparr>])
             [] ''''
         else vesta_loop now messages records currentLines currentID)
      else if Message msg = '''' then vesta_loop now messages records currentLines currentID
      else
        vesta_loop now messages records (currentLines @ [Message msg])
          (arrivesCallID currentID (Message msg)))"
| "vesta_loop now [] records currentLines currentID =
     (if length currentLines > 0
      then records @ [\<lparr>ID = currentID, Type = ''cdr'', Timestamp = now, Duration = 0,
                       Lines = currentLines\<rparr>]
      else records)"

definition vesta_blocks :: "Time \<Rightarrow> vestaMessage list \<Rightarrow> CDRRecord list" where
  "vesta_blocks now messages = vesta_loop now messages [] [] ''''"

definition ParseVestaCSV :: "Time \<Rightarrow> string list list \<Rightarrow> parse_error + CDRRecord list" where
  "ParseVestaCSV now rawRecords =
     (if list_ex (\<lambda>record. length record \<noteq> 2) rawRecords then Inl ErrFieldCount
      else Inr (vesta_blocks now (sort_messages (read_messages rawRecords True))))"

section \<open>Synthetic generators\<close>

text \<open>
  The generators draw their values from the context in the order of the source and build
  the lines of the record from them. The lines are written as a function of the values
  drawn (\<open>viperLines\<close>, \<open>vestaCallEvents\<close>, \<open>vestaAliLine\<close>): each entry is one
  \<^verbatim>\<open>append\<close> of the source, a \<^verbatim>\<open>Sprintf\<close> being the concatenation of the pieces of its
  format string and its arguments. An apostrophe is written \<open>[CHR 0x27]\<close>.
\<close>

subsection \<open>Viper\<close>

text \<open>
  \<^verbatim>\<open>formatDuration\<close>: hours, minutes, seconds and milliseconds of a duration that is not
  negative (the integer parts of \<^verbatim>\<open>d.Hours()\<close>, \<^verbatim>\<open>d.Minutes()\<close>, \<^verbatim>\<open>d.Seconds()\<close> are
  the quotients by the unit).
\<close>

definition formatDuration :: "Duration \<Rightarrow> string" where
  "formatDuration d =
     (let hours = d div (3600 * Second);
          minutes = (d div Minute) mod 60;
          seconds = (d div Second) mod 60;
          millis = (d div Millisecond) mod 1000
      in fmt_0d 2 hours @ '':'' @ fmt_0d 2 minutes @ '':'' @ fmt_0d 2 seconds @ ''.''
         @ fmt_0d 3 millis)"

definition formatPhoneParens :: "string \<Rightarrow> string" where
  "formatPhoneParens phone = (if length phone = 10 then take 3 phone else phone)"

text \<open>\<^verbatim>\<open>generateRandomID\<close>: \<open>n\<close> draws below the length of the alphabet, in order.\<close>

primrec generateRandomID :: "nat \<Rightarrow> GenerationContext \<Rightarrow> string \<times> GenerationContext" where
  "generateRandomID 0 ctx = ('''', ctx)"
| "generateRandomID (Suc n) ctx =
     (let (i, c1) = ctx_Intn ctx (length ''abcdefghijklmnopqrstuvwxyz0123456789'');
          (rest, c2) = generateRandomID n c1
      in (''abcdefghijklmnopqrstuvwxyz0123456789'' ! i # rest, c2))"

definition generateAgentBlock ::
  "fmt_lib \<Rightarrow> GenerationContext \<Rightarrow> Agent \<Rightarrow> string \<Rightarrow> int \<Rightarrow> int \<Rightarrow> Time
   \<Rightarrow> string list \<times> GenerationContext" where
  "generateAgentBlock lib ctx agent callID posNum stnNum now =
     (let (route, c1) = ctx_Intn ctx 10;
          (psap, c2) = ctx_Intn c1 9000
      in (
          [''===== AGENT BEGIN : '' @ time_Format lib now ''01/02/06 15:04:05.000'' @ '' ====='',
           ''ON CALL (ID: '' @ callID @ '')'',
           ''DIRECTION = incoming'',
           ''ROUTE = Q'' @ fmt_d (6000 + int route + 1),
           ''VIPERNODE = PRIMARY'',
           ''AGENT = '' @ AgentName agent @ ''/'' @ AgentID agent @ '' ROLE = '' @ AgentRole agent,
           ''From  PSAP ID = '' @ fmt_d (int psap + 1000) @ '' PSAP Name = '' @ PSAPName ctx,
           ''POS = '' @ fmt_0d 4 posNum @ '' / STN = '' @ fmt_d stnNum,
           ViperAgentEnd],
          c2))"

definition viperLines ::
  "fmt_lib \<Rightarrow> Time \<Rightarrow> string \<Rightarrow> string \<Rightarrow> string \<Rightarrow> string \<Rightarrow> string \<Rightarrow> string \<Rightarrow> int
   \<Rightarrow> Duration \<Rightarrow> Carrier \<Rightarrow> Location \<Rightarrow> string \<Rightarrow> int \<Rightarrow> int \<Rightarrow> real \<Rightarrow> string list"
  where
  "viperLines lib now systemID callID trunkName trunkGroup ani externalID queueNum
       duration carrier location sector psapNum posNum accuracy =
     [''===== CDR BEGIN : '' @ time_Format lib now ''01/02/06 15:04:05.000'' @ '' ====='',
      ''00:00:00.000 [  TS] SYSTEM ID = '' @ ToLower systemID,
      ''00:00:00.000 [VoIP] Incoming Call(ID: '' @ callID @ '') Offered on Trunk ''
        @ trunkName @ ''/'' @ take 10 ani @ ''-'' @ trunkName,
      ''00:00:00.000 [  TS] Trunk Group = '' @ trunkGroup,
      ''00:00:00.000 [VoIP] Call Presented'',
      ''00:00:00.000 [VoIP] ANI: (40)'' @ [CHR 0x27] @ ani @ [CHR 0x27]
        @ '' [VALID] PseudoANI: '' @ [CHR 0x27] @ [CHR 0x27] @ '' [NONE]'',
      ''00:00:00.000 [  TS] Initial ALI Request for ANI : '' @ ani,
      ''00:00:00.075 [VoIP] External Call-Identifier <'' @ externalID @ ''>'',
      ''00:00:00.104 [VoIP] Call Connected'',
      ''00:00:00.108 [VoIP] Routing call QUEUE = '' @ fmt_d queueNum,
      ''00:00:01.696 [ PAS] Initial ALI Response received / ALI TYPE = 1'',
      formatDuration duration @ '' [VoIP] Caller Disconnected Before Supervision'',
      formatDuration (duration + 73 * Millisecond) @ '' [VoIP] Call Terminated'',
      formatDuration (duration + 73 * Millisecond) @ '' [  TS] Call Completed'',
      '''',
      ''=====   Initial ALI   ===='',
      '''',
      ''('' @ formatPhoneParens ani @ '') '' @ time_Format lib now ''15:04  01/02''
        @ ''   '' @ '''',
      CarrierName carrier @ ''                   '',
      fmt_left 16 (take (min 16 (length (Address location))) (Address location)),
      ToUpper (Address location) @ '' - '' @ sector @ '' SECTOR     '',
      '''',
      ''                              '',
      fmt_left 24 (City location) @ ''          ESN '' @ ESN location,
      ''CO='' @ Code carrier @ '' PSAP '' @ fmt_0d 2 psapNum @ '' POS# ''
        @ fmt_0d 2 posNum @ ''   '' @ CarrierType carrier,
      ''                                '',
      ''      '',
      ''P#('' @ take 3 ani @ '')'' @ drop 3 ani,
      '' UNC='' @ fmt_float lib ''%.2f'' accuracy @ ''     COP=90%  Initia'',
      ''+'' @ fmt_float lib ''%010.6f'' (Latitude location) @ '' -''
        @ fmt_float lib ''%010.6f'' (- Longitude location),
      '''',
      ViperCDREnd]"

text \<open>
  The constant \<^verbatim>\<open>0.3\<close> of the comparison \<^verbatim>\<open>ctx.Random.Float32() > 0.3\<close> is the
  \<^verbatim>\<open>float32\<close> nearest to 0.3.
\<close>

definition float32_0_3 :: real where
  "float32_0_3 = 10066330 / 33554432"

text \<open>
  \<^verbatim>\<open>GenerateViperRecord\<close>. \<open>clock\<close> is the reading \<^verbatim>\<open>time.Now()\<close> would give; the zero
  \<^verbatim>\<open>Time\<close> is \<open>0\<close>. \<^verbatim>\<open>ani[:10]\<close>, \<^verbatim>\<open>ani[:3]\<close> and \<^verbatim>\<open>ani[3:]\<close> are within the ten
  digits \<^verbatim>\<open>RandomPhoneNumber\<close> returns.
\<close>

definition GenerateViperRecord ::
  "fmt_lib \<Rightarrow> Time \<Rightarrow> GenerationContext \<Rightarrow> go_panic + (CDRRecord \<times> GenerationContext)" where
  "GenerateViperRecord lib clock ctx =
     (let (callNum, c1) = NextCallNumber ctx;
          (ani, c2) = RandomPhoneNumber c1
      in case RandomLocation c2 of Inl p \<Rightarrow> Inl p | Inr (location, c3) \<Rightarrow>
         case RandomCarrier c3 of Inl p \<Rightarrow> Inl p | Inr (carrier, c4) \<Rightarrow>
         case RandomAgent c4 of Inl p \<Rightarrow> Inl p | Inr (agent, c5) \<Rightarrow>
         let now = (if CurrentTime c5 = 0 then clock else CurrentTime c5);
             (duration, c6) = RandomDuration c5 30 300;
             (t, c7) = ctx_Intn c6 10;
             trunkNum = int t + 1;
             trunkGroup = ''911'';
             trunkName = ''SIP'' @ fmt_0d 3 trunkNum;
             callID = ''911'' @ fmt_0d 3 trunkNum @ ''-'' @ fmt_0d 5 (callNum mod 100000)
                      @ ''-'' @ time_Format lib now ''20060102150405'';
             (p, c8) = ctx_Intn c7 20;
             posNum = int p + 1;
             stnNum = 2000 + posNum;
             (q, c9) = ctx_Intn c8 10;
             queueNum = 6000 + int q + 1;
             (rid, c10) = generateRandomID 20 c9;
             externalID = ''urn:nena:uid:callid:'' @ rid @ '':inbcf.indigital.net'';
             durationMs = duration div Millisecond;
             (s, c11) = ctx_Intn c10 8;
             sector = [''N'', ''S'', ''E'', ''W'', ''NE'', ''NW'', ''SE'', ''SW''] ! s;
             (ps, c12) = ctx_Intn c11 50;
             psapNum = int ps + 1;
             (u, g13) = Float64 (Random c12);
             c13 = c12\<lparr>Random := g13\<rparr>;
             accuracy = 4.64 + u * 50;
             lines = viperLines lib now (SystemID ctx) callID trunkName trunkGroup ani
                       externalID queueNum duration carrier location sector psapNum posNum
                       accuracy;
             (v, g14) = Float32 (Random c13);
             c14 = c13\<lparr>Random := g14\<rparr>
         in if v > float32_0_3 then
              let (agentLines, c15) = generateAgentBlock lib c14 agent callID posNum stnNum now
              in Inr (\<lparr>ID = callID, Type = ''cdr'', Timestamp = now,
                        Duration = durationMs * Millisecond,
                        Lines = lines @ [''''] @ agentLines\<rparr>, c15)
            else
              Inr (\<lparr>ID = callID, Type = ''cdr'', Timestamp = now,
                     Duration = durationMs * Millisecond, Lines = lines\<rparr>, c14))"

subsection \<open>Vesta\<close>

definition formatPhoneWithDashes :: "string \<Rightarrow> string" where
  "formatPhoneWithDashes phone =
     (if length phone = 10
      then take 3 phone @ ''-'' @ take 3 (drop 3 phone) @ ''-'' @ drop 6 phone
      else phone)"

primrec sipChars :: "nat \<Rightarrow> GenerationContext \<Rightarrow> string \<times> GenerationContext" where
  "sipChars 0 ctx = ('''', ctx)"
| "sipChars (Suc n) ctx =
     (let (i, c1) =
            ctx_Intn ctx
              (length ''ABCDEFGHIJKLMNOPQRSTUVWXYZabcdefghijklmnopqrstuvwxyz0123456789-_'');
          (rest, c2) = sipChars n c1
      in (''ABCDEFGHIJKLMNOPQRSTUVWXYZabcdefghijklmnopqrstuvwxyz0123456789-_'' ! i # rest,
          c2))"

definition generateSIPCallID :: "GenerationContext \<Rightarrow> string \<times> GenerationContext" where
  "generateSIPCallID ctx = (let (s, c1) = sipChars 22 ctx in (s @ ''..'', c1))"

definition vestaCallEvents ::
  "fmt_lib \<Rightarrow> Time \<Rightarrow> Time \<Rightarrow> string \<Rightarrow> string \<Rightarrow> string \<Rightarrow> string \<Rightarrow> string \<Rightarrow> string \<Rightarrow> string"
  where
  "vestaCallEvents lib now endTime ani cpn callID eimDevice posDevice queueName =
     ''ANI             '' @ ani
       @ ''                                                      CPN             '' @ cpn
       @ ''                                                                                                                                      Call ''
       @ callID @ ''   Arrives On               '' @ eimDevice @ ''     ''
       @ time_Format lib now ''Jan/02/06 15:04:05 EST'' @ '' '' @ eimDevice
       @ ''           Goes Off Hook                            ''
       @ time_Format lib now ''Jan/02/06 15:04:05 EST'' @ '' '' @ eimDevice
       @ ''           Queue In                 '' @ queueName @ ''         ''
       @ time_Format lib now ''Jan/02/06 15:04:05 EST'' @ '' Call '' @ callID
       @ ''   Cellular Call                            ''
       @ time_Format lib (now + 2 * Second) ''Jan/02/06 15:04:05 EST'' @ '' Call '' @ callID
       @ ''   CPN: '' @ cpn @ ''                          ''
       @ time_Format lib (now + 2 * Second) ''Jan/02/06 15:04:05 EST'' @ '' '' @ queueName
       @ ''         Queue Out (Answered)     '' @ posDevice @ ''           ''
       @ time_Format lib (now + 4 * Second) ''Jan/02/06 15:04:05 EST'' @ '' '' @ posDevice
       @ ''          Picks Up                                 ''
       @ time_Format lib (now + 4 * Second) ''Jan/02/06 15:04:05 EST'' @ '' '' @ eimDevice
       @ ''     Is Released                              ''
       @ time_Format lib endTime ''Jan/02/06 15:04:05 EST'' @ '' '' @ posDevice
       @ ''          Hangs Up                 Call '' @ callID @ ''   ''
       @ time_Format lib endTime ''Jan/02/06 15:04:05 EST'' @ '' '' @ posDevice
       @ ''          Releases                 Call '' @ callID @ ''   ''
       @ time_Format lib endTime ''Jan/02/06 15:04:05 EST'' @ '' Call '' @ callID
       @ ''   Finishes                                 ''
       @ time_Format lib endTime ''Jan/02/06 15:04:05 EST''"

definition vestaAliLine ::
  "fmt_lib \<Rightarrow> Time \<Rightarrow> string \<Rightarrow> string \<Rightarrow> Carrier \<Rightarrow> Location \<Rightarrow> int \<Rightarrow> real \<Rightarrow> real \<Rightarrow> string
   \<Rightarrow> string" where
  "vestaAliLine lib now ani cpn carrier location confidence accuracy zerr locTech =
     formatPhoneWithDashes ani @ ''   CBN '' @ formatPhoneWithDashes cpn @ ''    ''
       @ Code carrier @ ''  '' @ time_Format lib now ''01/02/2006'' @ ''     ''
       @ time_Format lib now ''15:04:05.0MST'' @ ''EST        '' @ CarrierType carrier
       @ CarrierName carrier @ ''                         ESN '' @ ESN location
       @ ''           '' @ ToUpper (Address location)
       @ ''                                                    Township:                               ''
       @ ToUpper (Township location) @ ''                            '' @ State location
       @ ''Comments:                               ''
       @ ToUpper (take (min (length (City location)) 20) (City location))
       @ ''                                                       '' @ ''Updated''
       @ '' PositionX='' @ fmt_float lib ''%+010.6f'' (Longitude location) @ ''            ''
       @ fmt_d confidence @ ''% sure callerY=''
       @ fmt_float lib ''%+010.6f'' (Latitude location) @ ''         within ''
       @ fmt_float lib ''%.2f'' accuracy @ '' metersZ=''
       @ fmt_0d 3 (float64_trunc (Altitude location)) @ ''+/-''
       @ fmt_float lib ''%.12f'' zerr
       @ ''                                                          LAW:                                    FIR:                                    EMS:                                    LocTechn:''
       @ locTech
       @ ''            MIN:           IMIN:                    Tabular/Legacy route ''
       @ ToUpper (City location)"

text \<open>
  \<^verbatim>\<open>GenerateVestaRecord\<close>; the agent drawn is discarded (\<^verbatim>\<open>_ = ctx.RandomAgent()\<close>), the
  draw itself is made.
\<close>

definition GenerateVestaRecord ::
  "fmt_lib \<Rightarrow> Time \<Rightarrow> GenerationContext \<Rightarrow> go_panic + (CDRRecord \<times> GenerationContext)" where
  "GenerateVestaRecord lib clock ctx =
     (let (callNum, c1) = NextCallNumber ctx;
          callID = fmt_d callNum;
          (ani, c2) = RandomPhoneNumber c1;
          (cpn, c3) = RandomPhoneNumber c2
      in case RandomLocation c3 of Inl p \<Rightarrow> Inl p | Inr (location, c4) \<Rightarrow>
         case RandomCarrier c4 of Inl p \<Rightarrow> Inl p | Inr (carrier, c5) \<Rightarrow>
         case RandomAgent c5 of Inl p \<Rightarrow> Inl p | Inr (agent, c6) \<Rightarrow>
         let now = (if CurrentTime c6 = 0 then clock else CurrentTime c6);
             (duration, c7) = RandomDuration c6 30 300;
             endTime = now + duration;
             (d, c8) = ctx_Intn c7 10;
             deviceNum = int d + 1;
             posDevice = ''DCD'' @ fmt_0d 2 deviceNum;
             (e, c9) = ctx_Intn c8 5;
             eimDevice = ''DCDEIM911'' @ fmt_d (int e + 1);
             queueName = ''DCD-911'';
             callEvents = vestaCallEvents lib now endTime ani cpn callID eimDevice posDevice
                            queueName;
             (l, c10) = ctx_Intn c9 4;
             locTech = [''Handset AGPS'', ''Handset GPS'', ''Hybrid Device Based'',
                        ''Hybrid Unspecified''] ! l;
             confidence = 90;
             (u, g11) = Float64 (Random c10);
             c11 = c10\<lparr>Random := g11\<rparr>;
             accuracy = 4.64 + u * 50;
             (z, g12) = Float64 (Random c11);
             c12 = c11\<lparr>Random := g12\<rparr>;
             aliLine = vestaAliLine lib now ani cpn carrier location confidence accuracy
                         (z * 10) locTech;
             (sipID, c13) = generateSIPCallID c12
         in Inr (\<lparr>ID = callID, Type = ''cdr'', Timestamp = now, Duration = duration,
                   Lines = [fmt_d 3001 @ '' '' @ ''Nebraska'', callEvents, ''ALI Information'',
                            aliLine, ''SIP Call IDs'', sipID, VestaSeparator]\<rparr>, c13))"

text \<open>The interface methods of a registered format dispatch on its implementation.\<close>

definition ParseRecords ::
  "CDRFormat \<Rightarrow> Time \<Rightarrow> string list list \<Rightarrow> parse_error + CDRRecord list" where
  "ParseRecords f now rawRecords =
     (case handler f of
        Vesta \<Rightarrow> ParseVestaCSV now rawRecords
      | Viper \<Rightarrow> ParseViperCSV now rawRecords)"

definition GenerateRecord ::
  "CDRFormat \<Rightarrow> fmt_lib \<Rightarrow> Time \<Rightarrow> GenerationContext
   \<Rightarrow> go_panic + (CDRRecord \<times> GenerationContext)" where
  "GenerateRecord f lib clock ctx =
     (case handler f of
        Vesta \<Rightarrow> GenerateVestaRecord lib clock ctx
      | Viper \<Rightarrow> GenerateViperRecord lib clock ctx)"

section \<open>Configuration\<close>

text \<open>
  The fields of the configuration that the core reads (the serial parameters of a port
  and the sections for logging, monitoring and notification are left out).
\<close>

record SyntheticConfig =
  SynSystemID :: string
  AgentCount :: int
  MinDurationSec :: int
  MaxDurationSec :: int
  IncludeAgentEvents :: bool

record PortConfig =
  Device :: string
  Format :: string
  Mode :: string
  SampleFile :: string
  Loop :: bool
  CallsPerMinute :: real
  Enabled :: bool
  Synthetic :: "SyntheticConfig option"

record RecoveryConfig =
  ReconnectDelaySec :: int
  MaxReconnectDelaySec :: int
  ExponentialBackoff :: bool

record Config =
  Ports :: "PortConfig list"
  JitterPercent :: real
  Recovery :: RecoveryConfig

definition GetReconnectDelay :: "RecoveryConfig \<Rightarrow> Duration" where
  "GetReconnectDelay c = ReconnectDelaySec c * Second"

definition GetMaxReconnectDelay :: "RecoveryConfig \<Rightarrow> Duration" where
  "GetMaxReconnectDelay c = MaxReconnectDelaySec c * Second"

section \<open>The transport and the rest of the outside world\<close>

text \<open>
  A port is the capability set the channel uses: whether it reports itself open, what a
  write of given bytes returns (an error text, or the number of bytes written) and what a
  flush returns.
\<close>

record Port =
  IsOpen :: bool
  Write :: "string \<Rightarrow> string + nat"
  Flush :: "string option"

text \<open>
  What the code reads from outside: the registry filled at process start, the sample
  files (the rows the CSV reader returns for a path, \<open>None\<close> when the file cannot be
  opened), the library's random sources, the clock, and what opening a device gives
  (\<open>None\<close> when it fails).
\<close>

record world =
  formats :: registry
  files :: "string \<Rightarrow> string list list option"
  rand :: rand_lib
  clock :: Time
  serial_Open :: "string \<Rightarrow> Port option"

section \<open>Generator\<close>

definition ModeReplay :: string where "ModeReplay = ''replay''"
definition ModeSynthetic :: string where "ModeSynthetic = ''synthetic''"

datatype gen_error =
    ErrUnknownFormat string registry_error
  | ErrInvalidMode string
  | ErrSampleFileRequired
  | ErrOpenSampleFile string
  | ErrParseSampleFile parse_error
  | ErrNoRecordsFound
  | ErrNoRecordsAvailable
  | ErrEndOfSample
  | ErrContextNotInitialized

record Generator =
  format :: CDRFormat
  mode :: string
  portConfig :: PortConfig
  rateLimiter :: RateLimiter
  genContext :: "GenerationContext option"
  records :: "CDRRecord list"
  recordIndex :: nat
  loop :: bool

definition loadSampleFile :: "world \<Rightarrow> Generator \<Rightarrow> gen_error + Generator" where
  "loadSampleFile w g =
     (if SampleFile (portConfig g) = '''' then Inl ErrSampleFileRequired
      else case files w (SampleFile (portConfig g)) of
             None \<Rightarrow> Inl (ErrOpenSampleFile (SampleFile (portConfig g)))
           | Some file \<Rightarrow>
               (case ParseRecords (format g) (clock w) file of
                  Inl err \<Rightarrow> Inl (ErrParseSampleFile err)
                | Inr recs \<Rightarrow>
                    if length recs = 0 then Inl ErrNoRecordsFound
                    else Inr (g\<lparr>records := recs, recordIndex := 0\<rparr>)))"

text \<open>\<^verbatim>\<open>generator.New\<close>. The seed it passes to \<^verbatim>\<open>NewGenerationContext\<close> is the literal 0.\<close>

definition New :: "world \<Rightarrow> PortConfig \<Rightarrow> real \<Rightarrow> gen_error + Generator" where
  "New w portCfg jitter =
     (case Get (formats w) (Format portCfg) of
        Inl err \<Rightarrow> Inl (ErrUnknownFormat (Format portCfg) err)
      | Inr f \<Rightarrow>
          if Mode portCfg \<noteq> ModeReplay \<and> Mode portCfg \<noteq> ModeSynthetic
          then Inl (ErrInvalidMode (Mode portCfg))
          else
            let g = \<lparr>format = f, mode = Mode portCfg, portConfig = portCfg,
                     rateLimiter =
                       NewRateLimiter (rand w) (clock w) (CallsPerMinute portCfg) jitter,
                     genContext = None, records = [], recordIndex = 0,
                     loop = Loop portCfg\<rparr>
            in if Mode portCfg = ModeReplay then loadSampleFile w g
               else
                 let systemID = (case Synthetic portCfg of
                                   Some syn \<Rightarrow> SynSystemID syn
                                 | None \<Rightarrow> ''default'');
                     psapName = ''Default PSAP''
                 in Inr (g\<lparr>genContext :=
                            Some (NewGenerationContext (rand w) (clock w) systemID psapName 0)\<rparr>))"

text \<open>
  \<^verbatim>\<open>nextReplayRecord\<close>, statement by statement: the emptiness check, the indexed read
  \<^verbatim>\<open>g.records[g.recordIndex]\<close> (a run-time panic when the index is not below the
  length), the increment, then the end test. The result of a call is an error, a record or
  a panic, with the generator as the call leaves it.
\<close>

datatype 'a result = Ok 'a | Error gen_error | Panic go_panic

definition nextReplayRecord :: "Generator \<Rightarrow> CDRRecord result \<times> Generator" where
  "nextReplayRecord g =
     (if length (records g) = 0 then (Error ErrNoRecordsAvailable, g)
      else if recordIndex g \<ge> length (records g)
      then (Panic (IndexOutOfRange (recordIndex g) (length (records g))), g)
      else
        let record = records g ! recordIndex g;
            g1 = g\<lparr>recordIndex := recordIndex g + 1\<rparr>
        in if recordIndex g1 \<ge> length (records g1) then
             (if loop g1 then (Ok record, g1\<lparr>recordIndex := 0\<rparr>)
              else (Error ErrEndOfSample, g1))
           else (Ok record, g1))"

definition nextSyntheticRecord ::
  "fmt_lib \<Rightarrow> Time \<Rightarrow> Generator \<Rightarrow> CDRRecord result \<times> Generator" where
  "nextSyntheticRecord lib now g =
     (case genContext g of
        None \<Rightarrow> (Error ErrContextNotInitialized, g)
      | Some ctx \<Rightarrow>
          (case GenerateRecord (format g) lib now ctx of
             Inl p \<Rightarrow> (Panic p, g)
           | Inr (r, ctx') \<Rightarrow> (Ok r, g\<lparr>genContext := Some ctx'\<rparr>)))"

definition NextRecord :: "fmt_lib \<Rightarrow> Time \<Rightarrow> Generator \<Rightarrow> CDRRecord result \<times> Generator" where
  "NextRecord lib now g =
     (if mode g = ModeReplay then nextReplayRecord g else nextSyntheticRecord lib now g)"

text \<open>\<^verbatim>\<open>RecordCount\<close>: the loaded count, or \<open>-1\<close> for synthetic mode.\<close>

definition RecordCount :: "Generator \<Rightarrow> int" where
  "RecordCount g = (if mode g = ModeReplay then int (length (records g)) else - 1)"

text \<open>The results of \<open>k\<close> successive calls of \<^verbatim>\<open>NextRecord\<close>; a panic ends the run.\<close>

fun calls :: "fmt_lib \<Rightarrow> Time \<Rightarrow> nat \<Rightarrow> Generator \<Rightarrow> CDRRecord result list" where
  "calls lib now 0 g = []"
| "calls lib now (Suc k) g =
     (case NextRecord lib now g of
        (Panic p, g') \<Rightarrow> [Panic p]
      | (res, g') \<Rightarrow> res # calls lib now k g')"

text \<open>The text of an error (\<^verbatim>\<open>err.Error()\<close>).\<close>

fun registry_error_text :: "registry_error \<Rightarrow> string" where
  "registry_error_text (AlreadyRegistered name) =
     ''format \"'' @ name @ ''\" already registered''"
| "registry_error_text (UnknownFormat name) = ''unknown format: '' @ name"

fun gen_error_text :: "gen_error \<Rightarrow> string" where
  "gen_error_text (ErrUnknownFormat name err) =
     ''unknown format '' @ name @ '': '' @ registry_error_text err"
| "gen_error_text (ErrInvalidMode m) = ''invalid mode: '' @ m"
| "gen_error_text ErrSampleFileRequired = ''sample_file is required for replay mode''"
| "gen_error_text (ErrOpenSampleFile path) = ''failed to open sample file: open '' @ path"
| "gen_error_text (ErrParseSampleFile err) =
     ''failed to parse sample file: record on line: wrong number of fields''"
| "gen_error_text ErrNoRecordsFound = ''no records found in sample file''"
| "gen_error_text ErrNoRecordsAvailable = ''no records available''"
| "gen_error_text ErrEndOfSample = ''end of sample file reached''"
| "gen_error_text ErrContextNotInitialized = ''generation context not initialized''"

section \<open>Channel\<close>

datatype ChannelState =
    StateInitializing
  | StateRunning
  | StatePaused
  | StateReconnecting
  | StateStopped
  | StateError

record ChannelStats =
  RecordsSent :: int
  BytesSent :: int
  Errors :: int
  LastRecordTime :: Time
  StartTime :: Time
  LastError :: string

record Channel =
  config :: PortConfig
  recovery :: RecoveryConfig
  generator :: Generator
  port :: "Port option"
  state :: ChannelState
  stats :: ChannelStats

definition NewChannel :: "Time \<Rightarrow> PortConfig \<Rightarrow> RecoveryConfig \<Rightarrow> Generator \<Rightarrow> Channel" where
  "NewChannel now portCfg recoveryCfg gen =
     \<lparr>config = portCfg, recovery = recoveryCfg, generator = gen, port = None,
      state = StateInitializing,
      stats = \<lparr>RecordsSent = 0, BytesSent = 0, Errors = 0, LastRecordTime = 0,
               StartTime = now, LastError = ''''\<rparr>\<rparr>"

definition openPort :: "world \<Rightarrow> Channel \<Rightarrow> Channel option" where
  "openPort w c =
     (case serial_Open w (Device (config c)) of
        None \<Rightarrow> None
      | Some p \<Rightarrow> Some (c\<lparr>port := Some p\<rparr>))"

text \<open>
  \<^verbatim>\<open>Channel.Start\<close>, up to the start of the output loop: \<open>Inl\<close> is the channel left in
  state \<open>Error\<close> (the call returns an error), \<open>Inr\<close> the running channel.
\<close>

definition Channel_Start :: "world \<Rightarrow> Channel \<Rightarrow> Channel + Channel" where
  "Channel_Start w c =
     (case openPort w (c\<lparr>state := StateInitializing\<rparr>) of
        None \<Rightarrow> Inl (c\<lparr>state := StateError\<rparr>)
      | Some c' \<Rightarrow> Inr (c'\<lparr>state := StateRunning\<rparr>))"

text \<open>
  \<^verbatim>\<open>sendNextRecord\<close>: the error it returns (its text), or none; a panic of the generator
  is not caught by the channel.
\<close>

definition sendNextRecord ::
  "fmt_lib \<Rightarrow> Time \<Rightarrow> Channel \<Rightarrow> go_panic + (string option \<times> Channel)" where
  "sendNextRecord lib now c =
     (case NextRecord lib now (generator c) of
        (Panic p, g) \<Rightarrow> Inl p
      | (Error err, g) \<Rightarrow>
          Inr (Some (''failed to get next record: '' @ gen_error_text err), c\<lparr>generator := g\<rparr>)
      | (Ok record, g) \<Rightarrow>
          (let c1 = c\<lparr>generator := g\<rparr>
           in case port c1 of
                None \<Rightarrow> Inl NilPointerDereference
              | Some p \<Rightarrow>
                  (case Write p (Output record) of
                     Inl err \<Rightarrow> Inr (Some (''failed to write to port: '' @ err), c1)
                   | Inr n \<Rightarrow>
                       Inr (None,
                            c1\<lparr>stats := (stats c1)\<lparr>RecordsSent := RecordsSent (stats c1) + 1,
                                   BytesSent := BytesSent (stats c1) + int n,
                                   LastRecordTime := now\<rparr>\<rparr>))))"

text \<open>
  \<^verbatim>\<open>reconnect\<close>: the state becomes \<open>Reconnecting\<close>, then the loop runs. What the outside
  does at each turn of the loop is a schedule: a stop request seen at the top of the
  loop, a failed reopening, or a reopening that gives a port. An empty schedule is a loop
  that is still waiting. The delays slept are returned with the channel.
\<close>

datatype attempt = StopRequested | OpenFails | OpenSucceeds Port

fun reconnect_loop ::
  "attempt list \<Rightarrow> Channel \<Rightarrow> Duration \<Rightarrow> Duration \<Rightarrow> Channel \<times> Duration list" where
  "reconnect_loop [] c delay maxDelay = (c, [])"
| "reconnect_loop (StopRequested # rest) c delay maxDelay = (c, [])"
| "reconnect_loop (OpenFails # rest) c delay maxDelay =
     (let delay' = (if ExponentialBackoff (recovery c)
                    then (if delay * 2 > maxDelay then maxDelay else delay * 2)
                    else delay);
          (c', slept) = reconnect_loop rest c delay' maxDelay
      in (c', delay # slept))"
| "reconnect_loop (OpenSucceeds p # rest) c delay maxDelay =
     (c\<lparr>port := Some p, state := StateRunning\<rparr>, [delay])"

definition reconnect :: "attempt list \<Rightarrow> Channel \<Rightarrow> Channel \<times> Duration list" where
  "reconnect schedule c =
     reconnect_loop schedule (c\<lparr>state := StateReconnecting\<rparr>)
       (GetReconnectDelay (recovery c)) (GetMaxReconnectDelay (recovery c))"

definition port_is_open :: "Channel \<Rightarrow> bool" where
  "port_is_open c = (case port c of None \<Rightarrow> False | Some p \<Rightarrow> IsOpen p)"

definition handleError :: "attempt list \<Rightarrow> Channel \<Rightarrow> string \<Rightarrow> Channel" where
  "handleError schedule c err =
     (let c1 = c\<lparr>stats := (stats c)\<lparr>Errors := Errors (stats c) + 1, LastError := err\<rparr>\<rparr>
      in if \<not> port_is_open c1 then fst (reconnect schedule c1) else c1)"

text \<open>One tick of the output loop: \<^verbatim>\<open>sendNextRecord\<close>, and \<^verbatim>\<open>handleError\<close> on an error.\<close>

definition tick :: "fmt_lib \<Rightarrow> Time \<Rightarrow> attempt list \<Rightarrow> Channel \<Rightarrow> go_panic + Channel" where
  "tick lib now schedule c =
     (case sendNextRecord lib now c of
        Inl p \<Rightarrow> Inl p
      | Inr (None, c') \<Rightarrow> Inr c'
      | Inr (Some err, c') \<Rightarrow> Inr (handleError schedule c' err))"

section \<open>Manager\<close>

datatype manager_error = ErrCreateGenerator string gen_error | ErrNoChannelsStarted

text \<open>
  \<^verbatim>\<open>Manager.Start\<close>: the loop over the configured ports with \<^verbatim>\<open>m.channels\<close> as an
  argument, and the test after the loop. The result is the error returned (or none) and
  \<^verbatim>\<open>m.channels\<close> as the call leaves it.
\<close>

fun start_ports ::
  "world \<Rightarrow> Config \<Rightarrow> PortConfig list \<Rightarrow> Channel list \<Rightarrow> manager_error option \<times> Channel list"
  where
  "start_ports w cfg [] channels =
     (if length channels = 0 then (Some ErrNoChannelsStarted, channels) else (None, channels))"
| "start_ports w cfg (portCfg # rest) channels =
     (if \<not> Enabled portCfg then start_ports w cfg rest channels
      else case New w portCfg (JitterPercent cfg) of
             Inl err \<Rightarrow> (Some (ErrCreateGenerator (Device portCfg) err), channels)
           | Inr gen \<Rightarrow>
               (case Channel_Start w (NewChannel (clock w) portCfg (Recovery cfg) gen) of
                  Inl failed \<Rightarrow> start_ports w cfg rest channels
                | Inr channel \<Rightarrow> start_ports w cfg rest (channels @ [channel])))"

definition Manager_Start :: "world \<Rightarrow> Config \<Rightarrow> manager_error option \<times> Channel list" where
  "Manager_Start w cfg = start_ports w cfg (Ports cfg) []"

section \<open>Vocabulary of the properties\<close>

subsection \<open>Viper blocks\<close>

text \<open>
  A message opens a block when its trimmed text starts with one of the two \<open>BEGIN\<close>
  markers, and closes one when its trimmed text is one of the two \<open>END\<close> markers: the
  tests of the grouping loop. \<open>captured\<close> are the messages the loop appends inside a block
  (those that are not blank), \<open>viper_block\<close> is the record of a block that \<open>b\<close> opens
  and whose further messages are \<open>body\<close>, without an end marker.
\<close>

definition is_begin :: "string \<Rightarrow> bool" where
  "is_begin m \<longleftrightarrow>
     HasPrefix (TrimSpace m) ViperCDRBegin \<or> HasPrefix (TrimSpace m) ViperAgentBegin"

definition is_end :: "string \<Rightarrow> bool" where
  "is_end m \<longleftrightarrow> TrimSpace m = ViperCDREnd \<or> TrimSpace m = ViperAgentEnd"




subsection \<open>Capturing a record\<close>



subsection \<open>Lines that are not markers\<close>

text \<open>
  A plain line neither opens nor closes a Viper block. A text with a plain start begins
  with a byte that is neither white space nor \<open>=\<close>; every line that begins with such a
  text is plain.
\<close>

definition plain_line :: "string \<Rightarrow> bool" where
  "plain_line l \<longleftrightarrow> \<not> is_begin l \<and> \<not> is_end l"

definition plain_start :: "string \<Rightarrow> bool" where
  "plain_start s \<longleftrightarrow> (case s of [] \<Rightarrow> False | c # cs \<Rightarrow> \<not> is_space c \<and> c \<noteq> CHR ''='')"




subsection \<open>Sample inputs\<close>

text \<open>
  Concrete inputs for the instances below: a formatting library that renders a time as
  its layout and a number as its verb, a world whose random sources all yield the
  constant raw value \<open>v\<close> (no sample files, no device that opens), and an enabled
  synthetic port of a given format with given minimum and maximum duration seconds.
\<close>

definition sample_lib :: fmt_lib where
  "sample_lib = \<lparr>time_Format = (\<lambda>t layout. layout), fmt_float = (\<lambda>verb x. verb)\<rparr>"

definition sample_world :: "nat \<Rightarrow> world" where
  "sample_world v =
     \<lparr>formats = init_registry, files = (\<lambda>path. None), rand = (\<lambda>seed i. v), clock = 1,
      serial_Open = (\<lambda>device. None)\<rparr>"

definition sample_port :: "string \<Rightarrow> int \<Rightarrow> int \<Rightarrow> PortConfig" where
  "sample_port name minSec maxSec =
     \<lparr>Device = ''/dev/ttyS0'', Format = name, Mode = ''synthetic'', SampleFile = '''',
      Loop = False, CallsPerMinute = 60, Enabled = True,
      Synthetic = Some \<lparr>SynSystemID = ''sys1'', AgentCount = 10, MinDurationSec = minSec,
                         MaxDurationSec = maxSec, IncludeAgentEvents = True\<rparr>\<rparr>"

section \<open>Properties of the pacing engine\<close>

lemma float64_to_int64_zero_iff:
  "0 < x \<Longrightarrow> float64_to_int64 x = Some 0 \<longleftrightarrow> x < 1"
  by (auto simp: float64_to_int64_def float64_trunc_def Let_def floor_eq_iff split: if_splits)

lemma float64_to_int64_small: "0 < x \<Longrightarrow> x < 1 \<Longrightarrow> float64_to_int64 x = Some 0"
  by (simp add: float64_to_int64_zero_iff)

lemma float64_to_int64_ge1:
  "1 \<le> x \<Longrightarrow> float64_to_int64 x = Some d \<Longrightarrow> 1 \<le> d"
  by (auto simp: float64_to_int64_def float64_trunc_def Let_def le_floor_iff split: if_splits)

text \<open>
  C10. The divisor \<^verbatim>\<open>time.Duration(r.callsPerMinute)\<close> of the base-interval computation
  is zero exactly for the rates strictly between 0 and 1: for a rate \<open>r \<le> 0\<close> the guard
  answers before the division, for \<open>r \<ge> 1\<close> the truncated rate is at least 1, and for
  \<open>0 < r < 1\<close> the guard does not apply, the truncated rate is 0 and \<^verbatim>\<open>NextInterval\<close>
  panics with an integer division by zero. The limiter is the one the public constructor
  \<^verbatim>\<open>NewRateLimiter\<close> builds, for any jitter.
\<close>

theorem NextInterval_division_by_zero:
  "(r \<le> 0 \<or> 1 \<le> r \<longrightarrow>
      fst (NextInterval (NewRateLimiter lib now r jp)) \<noteq> Inl IntegerDivideByZero)
   \<and> (0 < r \<and> r < 1 \<longrightarrow>
      float64_to_int64 r = Some 0
      \<and> fst (NextInterval (NewRateLimiter lib now r jp)) = Inl IntegerDivideByZero)"
proof (intro conjI impI)
  assume "r \<le> 0 \<or> 1 \<le> r"
  then show "fst (NextInterval (NewRateLimiter lib now r jp)) \<noteq> Inl IntegerDivideByZero"
  proof
    assume "r \<le> 0"
    then show ?thesis by (simp add: NextInterval_def NewRateLimiter_def)
  next
    assume r: "1 \<le> r"
    show ?thesis
    proof (cases "float64_to_int64 r")
      case None
      with r show ?thesis by (simp add: NextInterval_def NewRateLimiter_def)
    next
      case (Some d)
      with r have "1 \<le> d" by (rule float64_to_int64_ge1)
      with r Some show ?thesis
        by (simp add: NextInterval_def NewRateLimiter_def Let_def split: prod.split option.split)
    qed
  qed
next
  assume r: "0 < r \<and> r < 1"
  then show "float64_to_int64 r = Some 0" by (simp add: float64_to_int64_small)
  with r show "fst (NextInterval (NewRateLimiter lib now r jp)) = Inl IntegerDivideByZero"
    by (simp add: NextInterval_def NewRateLimiter_def)
qed

theorem NextInterval_division_by_zero_witness:
  "fst (NextInterval (NewRateLimiter (\<lambda>seed i. 0) 0 (1 / 2) 0)) = Inl IntegerDivideByZero
   \<and> fst (NextInterval (NewRateLimiter (\<lambda>seed i. 0) 0 60 0)) \<noteq> Inl IntegerDivideByZero"
  using NextInterval_division_by_zero [of "1 / 2" "\<lambda>seed i. 0" 0 0]
    NextInterval_division_by_zero [of 60 "\<lambda>seed i. 0" 0 0]
  by simp

text \<open>
  C3. What the code returns without jitter: one minute for a rate \<open>r \<le> 0\<close>, one second
  for \<open>r = 60\<close>, and for the rate 2.5 of the sample configuration 30 seconds, one minute
  divided by the truncated rate 2, where one minute divided by the rate is 24 seconds.
\<close>

theorem NextInterval_truncates_rate:
  "fst (NextInterval (NewRateLimiter lib now 0 0)) = Inr Minute
   \<and> fst (NextInterval (NewRateLimiter lib now 60 0)) = Inr Second
   \<and> fst (NextInterval (NewRateLimiter lib now (5 / 2) 0)) = Inr (30 * Second)
   \<and> real_of_int (30 * Second) \<noteq> real_of_int Minute / (5 / 2)"
  by (simp add: NextInterval_def NewRateLimiter_def float64_to_int64_def float64_trunc_def Minute_def
      Second_def)

section \<open>Properties of the registry\<close>




















section \<open>Properties of the Viper parser\<close>












section \<open>Properties of the generator, the channel and the manager\<close>

lemma nextReplayRecord_before_last:
  "recordIndex g + 1 < length (records g) \<Longrightarrow>
   nextReplayRecord g = (Ok (records g ! recordIndex g), g\<lparr>recordIndex := recordIndex g + 1\<rparr>)"
  by (auto simp: nextReplayRecord_def Let_def)

lemma nextReplayRecord_last:
  "recordIndex g + 1 = length (records g) \<Longrightarrow> \<not> loop g \<Longrightarrow>
   nextReplayRecord g = (Error ErrEndOfSample, g\<lparr>recordIndex := length (records g)\<rparr>)"
  by (auto simp: nextReplayRecord_def Let_def)

lemma nextReplayRecord_after_end:
  "records g \<noteq> [] \<Longrightarrow> recordIndex g = length (records g) \<Longrightarrow>
   nextReplayRecord g = (Panic (IndexOutOfRange (length (records g)) (length (records g))), g)"
  by (auto simp: nextReplayRecord_def Let_def)

text \<open>
  C1. What the code does without looping: with one record loaded the first call already
  fails with the end-of-sample error and the second call panics on the indexed read; with
  two records the first call returns the first record, the second call reads the second
  record, discards it and fails with the end-of-sample error, and the third call panics.
  The last loaded record is never returned, and the call after the end-of-sample error
  does not return an error.
\<close>

theorem replay_without_loop_loses_last_record:
  "calls lib now 2
     (g\<lparr>mode := ModeReplay, records := [r1], recordIndex := 0, loop := False\<rparr>)
   = [Error ErrEndOfSample, Panic (IndexOutOfRange 1 1)]
   \<and> calls lib now 3
     (g\<lparr>mode := ModeReplay, records := [r1, r2], recordIndex := 0, loop := False\<rparr>)
   = [Ok r1, Error ErrEndOfSample, Panic (IndexOutOfRange 2 2)]"
  by (simp add: numeral_2_eq_2 numeral_3_eq_3 NextRecord_def nextReplayRecord_def Let_def)

text \<open>
  What \<^verbatim>\<open>handleError\<close> does: the error is counted and its text recorded; with the port
  open nothing else changes, with the port closed the reconnect procedure is entered
  (state \<open>Reconnecting\<close> until a reopening succeeds).
\<close>

lemma handleError_open:
  "port_is_open c \<Longrightarrow>
   handleError schedule c err =
     c\<lparr>stats := (stats c)\<lparr>Errors := Errors (stats c) + 1, LastError := err\<rparr>\<rparr>"
  by (simp add: handleError_def port_is_open_def Let_def)

lemma handleError_closed:
  "\<not> port_is_open c \<Longrightarrow>
   handleError schedule c err =
     fst (reconnect schedule
            (c\<lparr>stats := (stats c)\<lparr>Errors := Errors (stats c) + 1, LastError := err\<rparr>\<rparr>))
   \<and> state (handleError [] c err) = StateReconnecting"
  by (simp add: handleError_def port_is_open_def Let_def reconnect_def)

text \<open>
  C7. A channel in state \<open>Running\<close> on an open port, replaying one record without
  looping. The first tick fails with the end-of-sample error: the error is counted, its
  text recorded, no record is sent and the state stays \<open>Running\<close>. The next tick does
  not record a second error: the generator panics on its indexed read, and nothing in the
  output loop recovers the panic.
\<close>

theorem replay_exhaustion_panics_on_next_tick:
  "case tick lib now schedule
          (c\<lparr>generator := (generator c)\<lparr>mode := ModeReplay, records := [r], recordIndex := 0,
                                         loop := False\<rparr>,
             port := Some (p\<lparr>IsOpen := True\<rparr>), state := StateRunning\<rparr>) of
     Inl panic \<Rightarrow> False
   | Inr c1 \<Rightarrow>
       Errors (stats c1) = Errors (stats c) + 1
       \<and> LastError (stats c1) = ''failed to get next record: end of sample file reached''
       \<and> RecordsSent (stats c1) = RecordsSent (stats c)
       \<and> state c1 = StateRunning
       \<and> tick lib now' schedule' c1 = Inl (IndexOutOfRange 1 1)"
  by (simp add: tick_def sendNextRecord_def NextRecord_def nextReplayRecord_def Let_def
      handleError_def port_is_open_def)

lemma init_registry_eval:
  "init_registry = [(''vesta'', VestaFormat), (''viper'', ViperFormat)]"
  by (simp add: init_registry_def registered_def Register_def Let_def ToLower_def
      lower_char_def upper_letters_def lower_letters_def VestaFormat_def ViperFormat_def)

lemma Get_init_registry:
  "Get init_registry ''viper'' = Inr ViperFormat"
  "Get init_registry ''vesta'' = Inr VestaFormat"
  "Get init_registry ''nope'' = Inl (UnknownFormat ''nope'')"
  by (simp_all add: init_registry_eval Get_def ToLower_def lower_char_def upper_letters_def
      lower_letters_def)

text \<open>
  C2. Three enabled ports whose devices all open; the second names a format that is not
  registered. \<^verbatim>\<open>Start\<close> starts the channel of the first port, then returns the error of
  the second port's generator: the third port is never tried, and an error is returned
  although a channel was started (it is left in \<^verbatim>\<open>m.channels\<close>, running).
\<close>

theorem Start_aborts_on_generator_failure:
  "Manager_Start
     \<lparr>formats = init_registry, files = fs, rand = lib, clock = t,
      serial_Open = (\<lambda>device. Some p)\<rparr>
     \<lparr>Ports =
        [\<lparr>Device = ''/dev/ttyS0'', Format = ''viper'', Mode = ''synthetic'', SampleFile = '''',
          Loop = False, CallsPerMinute = 60, Enabled = True, Synthetic = None\<rparr>,
         \<lparr>Device = ''/dev/ttyS1'', Format = ''nope'', Mode = ''synthetic'', SampleFile = '''',
          Loop = False, CallsPerMinute = 60, Enabled = True, Synthetic = None\<rparr>,
         \<lparr>Device = ''/dev/ttyS2'', Format = ''vesta'', Mode = ''synthetic'', SampleFile = '''',
          Loop = False, CallsPerMinute = 60, Enabled = True, Synthetic = None\<rparr>],
      JitterPercent = 0, Recovery = rc\<rparr>
   = (Some (ErrCreateGenerator ''/dev/ttyS1''
              (ErrUnknownFormat ''nope'' (UnknownFormat ''nope''))),
      [\<lparr>config = \<lparr>Device = ''/dev/ttyS0'', Format = ''viper'', Mode = ''synthetic'',
                   SampleFile = '''', Loop = False, CallsPerMinute = 60, Enabled = True,
                   Synthetic = None\<rparr>,
        recovery = rc,
        generator =
          \<lparr>format = ViperFormat, mode = ''synthetic'',
           portConfig = \<lparr>Device = ''/dev/ttyS0'', Format = ''viper'', Mode = ''synthetic'',
                   SampleFile = '''', Loop = False, CallsPerMinute = 60, Enabled = True,
                   Synthetic = None\<rparr>,
           rateLimiter = NewRateLimiter lib t 60 0,
           genContext = Some (NewGenerationContext lib t ''default'' ''Default PSAP'' 0),
           records = [], recordIndex = 0, loop = False\<rparr>,
        port = Some p, state = StateRunning,
        stats = \<lparr>RecordsSent = 0, BytesSent = 0, Errors = 0, LastRecordTime = 0,
                 StartTime = t, LastError = ''''\<rparr>\<rparr>])"
  by (simp add: Manager_Start_def New_def Get_init_registry ModeReplay_def ModeSynthetic_def
      Channel_Start_def openPort_def NewChannel_def)

text \<open>
  C8. Two generators built from the same synthetic configuration, at two readings of
  the clock. Each context has a source of its own, but both sources are created from the
  seed 0 that \<^verbatim>\<open>generator.New\<close> passes: they are the same source, and the two contexts
  draw the same sequence of values. (The sources of the two rate limiters are seeded from
  the clock.)
\<close>

theorem synthetic_generators_share_seed:
  "case (New \<lparr>formats = init_registry, files = fs, rand = lib, clock = t1, serial_Open = op\<rparr>
           \<lparr>Device = ''/dev/ttyS0'', Format = ''viper'', Mode = ''synthetic'', SampleFile = '''',
            Loop = False, CallsPerMinute = 60, Enabled = True,
            Synthetic = Some \<lparr>SynSystemID = ''sys1'', AgentCount = 10, MinDurationSec = 30,
                               MaxDurationSec = 300, IncludeAgentEvents = True\<rparr>\<rparr> j,
         New \<lparr>formats = init_registry, files = fs, rand = lib, clock = t2, serial_Open = op\<rparr>
           \<lparr>Device = ''/dev/ttyS0'', Format = ''viper'', Mode = ''synthetic'', SampleFile = '''',
            Loop = False, CallsPerMinute = 60, Enabled = True,
            Synthetic = Some \<lparr>SynSystemID = ''sys1'', AgentCount = 10, MinDurationSec = 30,
                               MaxDurationSec = 300, IncludeAgentEvents = True\<rparr>\<rparr> j) of
     (Inr g1, Inr g2) \<Rightarrow>
       (case (genContext g1, genContext g2) of
          (Some c1, Some c2) \<Rightarrow>
            Random c1 = rand_New lib 0 \<and> Random c2 = rand_New lib 0
            \<and> draws (Random c1) k = draws (Random c2) k
            \<and> random (rateLimiter g1) = rand_New lib t1
            \<and> random (rateLimiter g2) = rand_New lib t2
        | _ \<Rightarrow> False)
   | _ \<Rightarrow> False"
  by (simp add: New_def Get_init_registry ModeReplay_def ModeSynthetic_def
      NewGenerationContext_def NewRateLimiter_def)

section \<open>Properties of the synthetic generators\<close>

subsection \<open>Decimal text\<close>


lemma lt10_cases: "(d::nat) < 10 \<Longrightarrow> d \<in> {0, 1, 2, 3, 4, 5, 6, 7, 8, 9}"
  by auto


lemma digit_char_plain: "\<not> is_space (digit_char n) \<and> digit_char n \<noteq> CHR ''=''
    \<and> digit_char n \<noteq> CHR ''-'' \<and> digit_char n \<noteq> CHR ''+''"
proof -
  have "n mod 10 \<in> {0, 1, 2, 3, 4, 5, 6, 7, 8, 9}" by (rule lt10_cases) simp
  then show ?thesis
    unfolding digit_char_def is_space_def
    by (elim insertE emptyE) simp_all
qed

lemma dec_Cons:
  "\<exists>c cs. dec n = c # cs \<and> \<not> is_space c \<and> c \<noteq> CHR ''='' \<and> c \<noteq> CHR ''-'' \<and> c \<noteq> CHR ''+''"
proof (induction n rule: dec.induct)
  case (1 n)
  show ?case
  proof (cases "n < 10")
    case True
    then show ?thesis using digit_char_plain [of n] by (simp add: dec.simps [of n])
  next
    case False
    with 1 obtain c cs where "dec (n div 10) = c # cs" "\<not> is_space c" "c \<noteq> CHR ''=''"
      "c \<noteq> CHR ''-''" "c \<noteq> CHR ''+''" by auto
    with False show ?thesis by (simp add: dec.simps [of n])
  qed
qed





subsection \<open>Captured rows\<close>








subsection \<open>A Vesta record, captured and parsed again\<close>


lemma vesta_loop_records:
  "vesta_loop now msgs rs cl cid = rs @ vesta_loop now msgs [] cl cid"
proof (induction msgs arbitrary: rs cl cid)
  case Nil
  show ?case by simp
next
  case (Cons m msgs)
  show ?case
    apply (simp only: vesta_loop.simps)
    apply (simp only: Cons.IH [of "_ @ _"] Cons.IH [of rs] split: if_split)
    apply (simp add: Cons.IH [of "[_]"])
    done
qed











subsection \<open>Plain lines and the shape of a Viper record\<close>




lemma TrimSpace_Cons: "\<not> is_space c \<Longrightarrow> TrimSpace (c # s) = c # trim_right s"
  by (simp add: TrimSpace_def Let_def)




lemma plain_line_Cons: "\<not> is_space c \<Longrightarrow> c \<noteq> CHR ''='' \<Longrightarrow> plain_line (c # s)"
  by (simp add: plain_line_def is_begin_def is_end_def TrimSpace_Cons HasPrefix_def
      ViperCDRBegin_def ViperAgentBegin_def ViperCDREnd_def ViperAgentEnd_def)

lemma plain_lineI: "plain_start s \<Longrightarrow> plain_line (s @ t)"
  by (cases s) (simp_all add: plain_start_def plain_line_Cons)

lemma plain_lineI': "plain_start s \<Longrightarrow> plain_line s"
  using plain_lineI [of s "[]"] by simp





lemma plain_start_dec: "plain_start (dec n)"
  using dec_Cons [of n] by (auto simp: plain_start_def)











subsection \<open>Durations\<close>


lemma ctx_Intn_lt: "0 < n \<Longrightarrow> ctx_Intn ctx n = (k, c) \<Longrightarrow> k < n"
  by (auto simp: ctx_Intn_def Intn_def rng_next_def Let_def split: prod.splits)

lemma RandomDuration_fixed:
  "maxSec \<le> minSec \<Longrightarrow> RandomDuration ctx minSec maxSec = (minSec * Second, ctx)"
  by (simp add: RandomDuration_def)

lemma RandomDuration_range:
  assumes "minSec < maxSec" and "RandomDuration ctx minSec maxSec = (d, c)"
  shows "\<exists>k. 0 \<le> k \<and> k < maxSec - minSec \<and> d = (minSec + k) * Second"
proof -
  obtain k c' where k: "ctx_Intn ctx (nat (maxSec - minSec)) = (k, c')"
    by (cases "ctx_Intn ctx (nat (maxSec - minSec))")
  with assms(1) have "k < nat (maxSec - minSec)"
    by (intro ctx_Intn_lt [OF _ k]) simp
  with assms k show ?thesis
    by (intro exI [of _ "int k"]) (auto simp: RandomDuration_def)
qed

lemma RandomDuration_30_300:
  "RandomDuration ctx 30 300 = (d, c) \<Longrightarrow> \<exists>k. 0 \<le> k \<and> k < 270 \<and> d = (30 + k) * Second"
  using RandomDuration_range [of 30 300 ctx d c] by simp

lemma ms_roundtrip: "(x * Second) div Millisecond * Millisecond = x * Second"
  by (simp add: Second_def Millisecond_def)

lemma GenerateViperRecord_Duration:
  assumes "GenerateViperRecord lib clk ctx = Inr (r, c')"
  shows "\<exists>k. 0 \<le> k \<and> k < 270 \<and> Duration r = (30 + k) * Second"
  using assms
  by (auto simp: GenerateViperRecord_def Let_def ms_roundtrip
      split: prod.splits sum.splits if_splits dest!: RandomDuration_30_300)

lemma GenerateVestaRecord_Duration:
  assumes "GenerateVestaRecord lib clk ctx = Inr (r, c')"
  shows "\<exists>k. 0 \<le> k \<and> k < 270 \<and> Duration r = (30 + k) * Second"
  using assms
  by (auto simp: GenerateVestaRecord_def Let_def
      split: prod.splits sum.splits if_splits dest!: RandomDuration_30_300)

subsection \<open>A Viper record, captured and parsed again\<close>



















lemma end_markers_differ: "ViperCDREnd \<noteq> ViperAgentEnd"
  by (simp add: ViperCDREnd_def ViperAgentEnd_def)




lemma viperLines_last:
  "last (viperLines lib now systemID callID trunkName trunkGroup ani externalID queueNum
           duration carrier location sector psapNum posNum accuracy) = ViperCDREnd"
  "length (viperLines lib now systemID callID trunkName trunkGroup ani externalID queueNum
           duration carrier location sector psapNum posNum accuracy) = 32"
  by (simp_all add: viperLines_def)

lemma generateAgentBlock_last:
  "generateAgentBlock lib c agent callID posNum stnNum now = (ls, c') \<Longrightarrow>
   ls \<noteq> [] \<and> last ls = ViperAgentEnd \<and> length ls = 9"
  by (auto simp: generateAgentBlock_def Let_def split: prod.splits)

lemma ctx_Intn_src: "ctx_Intn c n = (k, c') \<Longrightarrow> src (Random c') = src (Random c)"
  by (auto simp: ctx_Intn_def Intn_def rng_next_def Let_def split: prod.splits)

lemma NextCallNumber_src: "NextCallNumber c = (n, c') \<Longrightarrow> src (Random c') = src (Random c)"
  by (auto simp: NextCallNumber_def)

lemma RandomPhoneNumber_src:
  "RandomPhoneNumber c = (s, c') \<Longrightarrow> src (Random c') = src (Random c)"
  by (auto simp: RandomPhoneNumber_def Let_def split: prod.splits dest!: ctx_Intn_src)

lemma RandomLocation_src: "RandomLocation c = Inr (l, c') \<Longrightarrow> src (Random c') = src (Random c)"
  by (auto simp: RandomLocation_def Let_def split: prod.splits if_splits dest!: ctx_Intn_src)

lemma RandomCarrier_src: "RandomCarrier c = Inr (l, c') \<Longrightarrow> src (Random c') = src (Random c)"
  by (auto simp: RandomCarrier_def Let_def split: prod.splits if_splits dest!: ctx_Intn_src)

lemma RandomAgent_src: "RandomAgent c = Inr (l, c') \<Longrightarrow> src (Random c') = src (Random c)"
  by (auto simp: RandomAgent_def Let_def split: prod.splits if_splits dest!: ctx_Intn_src)

lemma RandomDuration_src:
  "RandomDuration c 30 300 = (d, c') \<Longrightarrow>
   src (Random c') = src (Random c)
   \<and> d = (30 + int (src (Random c) (pos (Random c)) mod 270)) * Second"
  by (auto simp: RandomDuration_def ctx_Intn_def Intn_def rng_next_def Let_def
      split: prod.splits if_splits)

lemma generateRandomID_src:
  "generateRandomID n c = (s, c') \<Longrightarrow> src (Random c') = src (Random c)"
proof (induction n arbitrary: c s)
  case 0
  then show ?case by simp
next
  case (Suc n)
  then show ?case
    by (auto simp: Let_def split: prod.splits dest!: ctx_Intn_src)
qed

lemma Float64_src: "Float64 g = (u, g') \<Longrightarrow> src g' = src g"
  by (auto simp: Float64_def rng_next_def Let_def split: prod.splits)

lemma Float32_const:
  "Float32 g = (x, g') \<Longrightarrow> src g = (\<lambda>i. v) \<Longrightarrow> x = real (v mod 16777216) / 16777216"
  by (auto simp: Float32_def rng_next_def Let_def split: prod.splits)

lemma GenerateViperRecord_const_source:
  assumes "GenerateViperRecord lib clk ctx = Inr (r, c')" and "src (Random ctx) = (\<lambda>i. v)"
  shows "(last (Lines r) = ViperAgentEnd \<longleftrightarrow> float32_0_3 < real (v mod 16777216) / 16777216)
         \<and> length (Lines r) \<le> 42
         \<and> Duration r = (30 + int (v mod 270)) * Second"
  using assms
  by (auto simp: GenerateViperRecord_def Let_def viperLines_last end_markers_differ ms_roundtrip
      split: prod.splits sum.splits if_splits
      dest!: NextCallNumber_src RandomPhoneNumber_src RandomLocation_src RandomCarrier_src
        RandomAgent_src RandomDuration_src ctx_Intn_src generateRandomID_src Float64_src
        generateAgentBlock_last dest: Float32_const)

lemma GenerateViperRecord_succeeds:
  assumes "LocationPool ctx \<noteq> []" "CarrierPool ctx \<noteq> []" "AgentPool ctx \<noteq> []"
  shows "\<exists>r c'. GenerateViperRecord lib clk ctx = Inr (r, c')"
  using assms
  by (auto simp: GenerateViperRecord_def NextCallNumber_def RandomPhoneNumber_def
      RandomLocation_def RandomCarrier_def RandomAgent_def ctx_Intn_def Intn_def rng_next_def
      Let_def split: prod.splits)




subsection \<open>Configured durations\<close>

lemma default_pools_nonempty:
  "defaultLocations \<noteq> []" "defaultCarriers \<noteq> []" "defaultAgents \<noteq> []"
  by (simp_all add: defaultLocations_def defaultCarriers_def defaultAgents_def)

lemma NewGenerationContext_fields:
  "LocationPool (NewGenerationContext lib now sid psap seed) = defaultLocations"
  "CarrierPool (NewGenerationContext lib now sid psap seed) = defaultCarriers"
  "AgentPool (NewGenerationContext lib now sid psap seed) = defaultAgents"
  "src (Random (NewGenerationContext lib now sid psap seed)) = lib seed"
  by (simp_all add: NewGenerationContext_def rand_New_def)

lemma New_sample:
  "New (sample_world v) (sample_port ''viper'' lo hi) j =
     Inr \<lparr>format = ViperFormat, mode = ''synthetic'', portConfig = sample_port ''viper'' lo hi,
          rateLimiter = NewRateLimiter (\<lambda>seed i. v) 1 60 j,
          genContext = Some (NewGenerationContext (\<lambda>seed i. v) 1 ''sys1'' ''Default PSAP'' 0),
          records = [], recordIndex = 0, loop = False\<rparr>"
  by (simp add: New_def sample_world_def sample_port_def Get_init_registry ModeReplay_def
      ModeSynthetic_def)

lemma NextRecord_synthetic:
  assumes "mode g \<noteq> ModeReplay"
  shows "case fst (NextRecord lib now g) of
           Ok r \<Rightarrow> \<exists>k. 0 \<le> k \<and> k < 270 \<and> Duration r = (30 + k) * Second
         | Error e \<Rightarrow> True
         | Panic p \<Rightarrow> True"
proof (cases "genContext g")
  case None
  with assms show ?thesis by (simp add: NextRecord_def nextSyntheticRecord_def)
next
  case (Some ctx)
  show ?thesis
  proof (cases "GenerateRecord (format g) lib now ctx")
    case (Inl p)
    with assms Some show ?thesis by (simp add: NextRecord_def nextSyntheticRecord_def)
  next
    case (Inr rc)
    obtain r c' where rc: "rc = (r, c')" by (cases rc)
    have "\<exists>k. 0 \<le> k \<and> k < 270 \<and> Duration r = (30 + k) * Second"
      using Inr rc GenerateViperRecord_Duration [of lib now ctx r c']
        GenerateVestaRecord_Duration [of lib now ctx r c']
      by (cases "handler (format g)") (simp_all add: GenerateRecord_def)
    with assms Some Inr rc show ?thesis
      by (simp add: NextRecord_def nextSyntheticRecord_def)
  qed
qed

lemma NextRecord_sample:
  "\<exists>r g'. NextRecord lib now (projr (New (sample_world v) (sample_port ''viper'' lo hi) j))
            = (Ok r, g')
          \<and> Duration r = (30 + int (v mod 270)) * Second"
proof -
  let ?ctx = "NewGenerationContext (\<lambda>seed i. v) 1 ''sys1'' ''Default PSAP'' 0"
  obtain r c' where G: "GenerateViperRecord lib now ?ctx = Inr (r, c')"
    using GenerateViperRecord_succeeds [of ?ctx lib now]
    by (auto simp: NewGenerationContext_fields default_pools_nonempty)
  have "Duration r = (30 + int (v mod 270)) * Second"
    using GenerateViperRecord_const_source [OF G, of v]
    by (simp add: NewGenerationContext_fields)
  then show ?thesis
    using G
    by (simp add: New_sample NextRecord_def nextSyntheticRecord_def ModeReplay_def
        GenerateRecord_def ViperFormat_def)
qed

text \<open>
  C5. A synthetic generator built from a port whose configuration asks for call durations
  between 1 and 5 seconds. \<^verbatim>\<open>generator.New\<close> reads only the system identifier of the
  synthetic configuration, and both protocols call \<^verbatim>\<open>RandomDuration(30, 300)\<close>: the
  record produced has a duration of 30 seconds, above the configured maximum. (On its
  two arguments \<^verbatim>\<open>RandomDuration\<close> does draw from the range and returns the minimum
  when the maximum is not above it: lemmas \<open>RandomDuration_range\<close> and
  \<open>RandomDuration_fixed\<close>; whatever is configured, a synthetic record lasts between 30 and
  300 seconds: lemma \<open>NextRecord_synthetic\<close>.)
\<close>

theorem configured_duration_ignored:
  "case New (sample_world 0) (sample_port ''viper'' 1 5) 0 of
     Inl e \<Rightarrow> False
   | Inr g \<Rightarrow>
       MinDurationSec (the (Synthetic (portConfig g))) = 1
       \<and> MaxDurationSec (the (Synthetic (portConfig g))) = 5
       \<and> (case fst (NextRecord sample_lib 2 g) of
            Ok r \<Rightarrow> Duration r = 30 * Second \<and> 5 * Second < Duration r
          | Error e \<Rightarrow> False
          | Panic p \<Rightarrow> False)"
proof -
  obtain r g' where ok:
    "NextRecord sample_lib 2 (projr (New (sample_world 0) (sample_port ''viper'' 1 5) 0))
       = (Ok r, g')"
    "Duration r = (30 + int (0 mod 270)) * Second"
    using NextRecord_sample [of sample_lib 2 0 1 5 0] by blast
  then show ?thesis
    unfolding New_sample by (simp add: sample_port_def Second_def)
qed

subsection \<open>Synthetic records parsed again\<close>






end
